theory Spec2Isabelle
  imports Complex_Main
begin

section \<open>Python and JavaScript values\<close>

text \<open>
  The Python services test optional strings for truth (\<open>None\<close> and the empty string
  are false) and combine them with \<open>or\<close>, which returns its first true operand and
  otherwise its last one.
\<close>

definition py_truthy :: "string option \<Rightarrow> bool" where
  "py_truthy v = (case v of None \<Rightarrow> False | Some s \<Rightarrow> s \<noteq> [])"

definition py_or :: "string option \<Rightarrow> string option \<Rightarrow> string option" where
  "py_or a b = (if py_truthy a then a else b)"

text \<open>Python truth of an optional Boolean column: \<open>None\<close> and \<open>False\<close> are false.\<close>

definition py_truthy_bool :: "bool option \<Rightarrow> bool" where
  "py_truthy_bool v = (case v of None \<Rightarrow> False | Some b \<Rightarrow> b)"

text \<open>
  \<open>str(n)\<close> of a non-negative Python integer and \<open>int(s)\<close> of a string of decimal
  digits. Python's \<open>int\<close> also accepts a sign, surrounding blanks and underscores;
  \<open>str\<close> produces none of them, and every other string is a \<open>ValueError\<close> here.
\<close>

definition decimal_digits :: "(nat \<times> char) list" where
  "decimal_digits =
     [(0, CHR ''0''), (1, CHR ''1''), (2, CHR ''2''), (3, CHR ''3''), (4, CHR ''4''),
      (5, CHR ''5''), (6, CHR ''6''), (7, CHR ''7''), (8, CHR ''8''), (9, CHR ''9'')]"

definition digit_char :: "nat \<Rightarrow> char" where
  "digit_char d = (case map_of decimal_digits d of Some c \<Rightarrow> c | None \<Rightarrow> CHR ''?'')"

definition digit_value :: "char \<Rightarrow> nat option" where
  "digit_value c = map_of (map (\<lambda>(d, ch). (ch, d)) decimal_digits) c"

fun py_str :: "nat \<Rightarrow> string" where
  "py_str n = (if n < 10 then [digit_char n] else py_str (n div 10) @ [digit_char (n mod 10)])"

declare py_str.simps [simp del]

fun int_digits :: "nat \<Rightarrow> string \<Rightarrow> nat option" where
  "int_digits acc [] = Some acc"
| "int_digits acc (c # cs) =
     (case digit_value c of None \<Rightarrow> None | Some d \<Rightarrow> int_digits (10 * acc + d) cs)"

definition py_int :: "string \<Rightarrow> nat option" where
  "py_int s = (if s = [] then None else int_digits 0 s)"

text \<open>
  What a rejected request throws in the client services:
  \<^verbatim>\<open>throw error.response?.data || error.message\<close>. The handlers read its \<open>detail\<close>
  and \<open>message\<close> properties (\<open>None\<close> is \<open>undefined\<close>) and fall back to a fixed
  text: \<^verbatim>\<open>err.detail || err.message || 'Failed to ...'\<close>.
\<close>

record js_error =
  detail :: "string option"
  message :: "string option"

definition js_or_text :: "string option \<Rightarrow> string \<Rightarrow> string" where
  "js_or_text v rest = (case v of None \<Rightarrow> rest | Some s \<Rightarrow> if s \<noteq> [] then s else rest)"

definition error_text :: "js_error \<Rightarrow> string \<Rightarrow> string" where
  "error_text err fallback = js_or_text (detail err) (js_or_text (message err) fallback)"

datatype toast = toast_success string | toast_error string

section \<open>Diagnosis and workflow service: enumerations and tables\<close>

text \<open>\<open>TEST_STATUS\<close> and \<open>SCAN_TYPES\<close> of testService.js, \<open>TestStatus\<close>,
  \<open>ScanType\<close> and \<open>ReportStatus\<close> of the service's models.\<close>

datatype TestStatus = SCAN_TO_BE_TAKEN | SCAN_IN_PROGRESS | SCAN_DONE

datatype ScanType = ABDOMINAL_ULTRASOUND | CT_SCAN | MRI_SCAN | PET_SCAN

datatype ReportStatus = PENDING | FINALIZED

text \<open>The order of the workflow: to be taken, in progress, done.\<close>

fun status_rank :: "TestStatus \<Rightarrow> nat" where
  "status_rank SCAN_TO_BE_TAKEN = 0"
| "status_rank SCAN_IN_PROGRESS = 1"
| "status_rank SCAN_DONE = 2"

text \<open>
  The row of \<open>medical_tests\<close> (class \<open>MedicalTest\<close>), which is also the test object
  the client components hold. Times are seconds.
\<close>

record MedicalTest =
  test_id :: nat
  patient_id :: nat
  doctor_id :: nat
  radiologist_id :: "nat option"
  appointment_id :: "nat option"
  test_type :: ScanType
  status :: TestStatus
  report_id :: "nat option"
  image_id :: "nat option"
  created_date :: nat
  updated_date :: nat

text \<open>The row of \<open>diagnosis_reports\<close> (class \<open>DiagnosisReport\<close>).\<close>

record DiagnosisReport =
  rep_report_id :: nat
  rep_patient_id :: nat
  staff_id :: nat
  rep_image_id :: "nat option"
  findings :: "string option"
  diagnosis :: "string option"
  recommendations :: "string option"
  rep_status :: ReportStatus
  rep_updated_date :: nat

text \<open>
  The status selection of report generation (diagnosis-workflow-service routes.py):
  \<^verbatim>\<open>status = models.ReportStatus.FINALIZED if (findings or diagnosis) else models.ReportStatus.PENDING\<close>
\<close>

definition report_status_selection :: "string option \<Rightarrow> string option \<Rightarrow> ReportStatus" where
  "report_status_selection fnd dgn =
     (if py_truthy (py_or fnd dgn) then FINALIZED else PENDING)"

section \<open>The client's test service and the radiologist's upload component\<close>

text \<open>
  The request bodies of testService.js. In an update a key that is left out is
  \<open>None\<close>; a key sent as \<open>null\<close> is \<open>Some None\<close>.
\<close>

record MedicalTestCreate =
  new_patient_id :: nat
  new_doctor_id :: nat
  new_test_type :: ScanType
  new_radiologist_id :: "nat option"
  new_status :: "TestStatus option"

record MedicalTestUpdate =
  upd_test_type :: "ScanType option"
  upd_radiologist_id :: "nat option option"
  upd_status :: "TestStatus option"
  upd_image_id :: "nat option option"

record ReportData =
  rd_findings :: "string option"
  rd_diagnosis :: "string option"

text \<open>
  The methods of the \<open>testService\<close> object and the request each one sends
  (\<open>testApi.post\<close>, \<open>.get\<close>, \<open>.put\<close>); an id in a template literal is its
  decimal text.
\<close>

datatype http_method = GET | POST | PUT | DELETE

datatype testService_call =
    createTest_call MedicalTestCreate
  | getPatientTests_call nat
  | getDoctorTests_call nat
  | getAppointmentTests_call nat
  | getRadiologistTests_call nat
  | updateTest_call nat MedicalTestUpdate
  | generateReport_call nat ReportData
  | getReport_call nat

fun testService_request :: "testService_call \<Rightarrow> http_method \<times> string" where
  "testService_request (createTest_call testData) = (POST, ''/api/v1/tests/'')"
| "testService_request (getPatientTests_call patientId) =
     (GET, ''/api/v1/tests/patient/'' @ py_str patientId)"
| "testService_request (getDoctorTests_call doctorId) =
     (GET, ''/api/v1/tests/doctor/'' @ py_str doctorId)"
| "testService_request (getAppointmentTests_call appointmentId) =
     (GET, ''/api/v1/tests/appointment/'' @ py_str appointmentId)"
| "testService_request (getRadiologistTests_call radiologistId) =
     (GET, ''/api/v1/tests/radiologist/'' @ py_str radiologistId)"
| "testService_request (updateTest_call testId updateData) =
     (PUT, ''/api/v1/tests/'' @ py_str testId)"
| "testService_request (generateReport_call testId reportData) =
     (POST, ''/api/v1/tests/'' @ py_str testId @ ''/generate-report'')"
| "testService_request (getReport_call reportId) =
     (GET, ''/api/v1/reports/'' @ py_str reportId)"

text \<open>
  The services the components call. The servers behind them are not part of the
  client: a call takes the server's state and returns what the call resolves or
  rejects with, and the server's next state.
\<close>

record 'srv testService =
  createTest :: "MedicalTestCreate \<Rightarrow> 'srv \<Rightarrow> (js_error + unit) \<times> 'srv"
  updateTest :: "nat \<Rightarrow> MedicalTestUpdate \<Rightarrow> 'srv \<Rightarrow> (js_error + unit) \<times> 'srv"
  generateReport :: "nat \<Rightarrow> ReportData \<Rightarrow> 'srv \<Rightarrow> (js_error + unit) \<times> 'srv"

record File =
  file_name :: string
  file_type :: string
  file_size :: nat

record UploadResponse =
  up_image_id :: nat
  img_url :: string
  presigned_url :: string

record 'srv imageService =
  uploadImage :: "nat \<Rightarrow> string \<Rightarrow> nat \<Rightarrow> File \<Rightarrow> 'srv \<Rightarrow> (js_error + UploadResponse) \<times> 'srv"
  deleteImage :: "nat \<Rightarrow> 'srv \<Rightarrow> (js_error + unit) \<times> 'srv"

text \<open>\<open>SCAN_TO_IMAGE_TYPE[test.test_type] || 'other'\<close> of imageService.js.\<close>

fun SCAN_TO_IMAGE_TYPE :: "ScanType \<Rightarrow> string" where
  "SCAN_TO_IMAGE_TYPE ABDOMINAL_ULTRASOUND = ''ultrasound''"
| "SCAN_TO_IMAGE_TYPE CT_SCAN = ''ct''"
| "SCAN_TO_IMAGE_TYPE MRI_SCAN = ''mri''"
| "SCAN_TO_IMAGE_TYPE PET_SCAN = ''other''"

text \<open>
  The state of the component \<open>TestImageUpload\<close> (RadiologistTestsView.jsx): its
  \<open>test\<close> prop, which the handlers assign to, its \<open>useState\<close> cells, and the toasts
  shown so far.
\<close>

record TestImageUpload =
  test :: MedicalTest
  selectedFile :: "File option"
  uploading :: bool
  deleting :: bool
  updatingStatus :: bool
  imageUrl :: "string option"
  imageData :: "(nat \<times> string) option"
  toasts :: "toast list"

text \<open>
  \<open>handleUpload\<close>: without a selected file it only shows an error. Otherwise it
  deletes the old image if the test has one (\<open>if (test.image_id)\<close>: \<open>null\<close> and
  \<open>0\<close> are false; a failure of the deletion is logged and ignored),
  uploads the file, and updates the test with the new image id and the status
  \<open>SCAN_IN_PROGRESS\<close>; only after these calls it assigns both to the local test
  object. A rejected upload or update is caught: an error toast, nothing assigned.
\<close>

definition handleUpload ::
  "'srv imageService \<Rightarrow> 'srv testService \<Rightarrow> nat \<Rightarrow> TestImageUpload \<Rightarrow> 'srv
     \<Rightarrow> TestImageUpload \<times> 'srv" where
  "handleUpload imgs tsts radiologistId c srv =
     (case selectedFile c of
        None \<Rightarrow> (c\<lparr>toasts := toasts c @ [toast_error ''Please select an image file'']\<rparr>, srv)
      | Some file \<Rightarrow>
          let t = test c;
              srv1 = (case image_id t of
                        None \<Rightarrow> srv
                      | Some old \<Rightarrow> if old \<noteq> 0 then snd (deleteImage imgs old srv) else srv);
              imageType = SCAN_TO_IMAGE_TYPE (test_type t);
              (uploaded, srv2) = uploadImage imgs (patient_id t) imageType radiologistId file srv1
          in (case uploaded of
                Inl err \<Rightarrow>
                  (c\<lparr>toasts := toasts c @ [toast_error (error_text err ''Failed to upload image'')],
                     uploading := False\<rparr>, srv2)
              | Inr uploadResponse \<Rightarrow>
                  let (updated, srv3) =
                        updateTest tsts (test_id t)
                          \<lparr>upd_test_type = None, upd_radiologist_id = None,
                           upd_status = Some SCAN_IN_PROGRESS,
                           upd_image_id = Some (Some (up_image_id uploadResponse))\<rparr> srv2
                  in (case updated of
                        Inl err \<Rightarrow>
                          (c\<lparr>toasts := toasts c
                                 @ [toast_error (error_text err ''Failed to upload image'')],
                             uploading := False\<rparr>, srv3)
                      | Inr _ \<Rightarrow>
                          (c\<lparr>toasts := toasts c @ [toast_success ''Image uploaded successfully!''],
                             selectedFile := None,
                             imageData := Some (up_image_id uploadResponse, img_url uploadResponse),
                             imageUrl := Some (presigned_url uploadResponse),
                             test := t\<lparr>image_id := Some (up_image_id uploadResponse),
                                       status := SCAN_IN_PROGRESS\<rparr>,
                             uploading := False\<rparr>, srv3))))"

text \<open>
  \<open>handleDeleteImage\<close>: nothing without an image or without the user's
  confirmation; otherwise the image is deleted and the test updated with
  \<open>image_id: null\<close>.
\<close>

definition handleDeleteImage ::
  "'srv imageService \<Rightarrow> 'srv testService \<Rightarrow> bool \<Rightarrow> TestImageUpload \<Rightarrow> 'srv
     \<Rightarrow> TestImageUpload \<times> 'srv" where
  "handleDeleteImage imgs tsts confirmed c srv =
     (case image_id (test c) of
        None \<Rightarrow> (c, srv)
      | Some old \<Rightarrow>
          if old = 0 \<or> \<not> confirmed then (c, srv)
          else
            let (deleted, srv1) = deleteImage imgs old srv
            in (case deleted of
                  Inl err \<Rightarrow>
                    (c\<lparr>toasts := toasts c @ [toast_error (error_text err ''Failed to delete image'')],
                       deleting := False\<rparr>, srv1)
                | Inr _ \<Rightarrow>
                    let (updated, srv2) =
                          updateTest tsts (test_id (test c))
                            \<lparr>upd_test_type = None, upd_radiologist_id = None,
                             upd_status = None, upd_image_id = Some None\<rparr> srv1
                    in (case updated of
                          Inl err \<Rightarrow>
                            (c\<lparr>toasts := toasts c
                                   @ [toast_error (error_text err ''Failed to delete image'')],
                               deleting := False\<rparr>, srv2)
                        | Inr _ \<Rightarrow>
                            (c\<lparr>toasts := toasts c @ [toast_success ''Image deleted successfully!''],
                               imageData := None, imageUrl := None,
                               test := (test c)\<lparr>image_id := None\<rparr>,
                               deleting := False\<rparr>, srv2))))"

text \<open>
  \<open>handleStatusChange\<close>: updates the test with the new status and assigns it to
  the local test object when the update succeeded.
\<close>

definition handleStatusChange ::
  "'srv testService \<Rightarrow> TestStatus \<Rightarrow> TestImageUpload \<Rightarrow> 'srv \<Rightarrow> TestImageUpload \<times> 'srv" where
  "handleStatusChange tsts newStatus c srv =
     (let (updated, srv1) =
            updateTest tsts (test_id (test c))
              \<lparr>upd_test_type = None, upd_radiologist_id = None,
               upd_status = Some newStatus, upd_image_id = None\<rparr> srv
      in (case updated of
            Inl err \<Rightarrow>
              (c\<lparr>toasts := toasts c @ [toast_error (error_text err ''Failed to update status'')],
                 updatingStatus := False\<rparr>, srv1)
          | Inr _ \<Rightarrow>
              (c\<lparr>toasts := toasts c @ [toast_success ''Status updated successfully!''],
                 test := (test c)\<lparr>status := newStatus\<rparr>,
                 updatingStatus := False\<rparr>, srv1)))"

text \<open>
  The button \<open>Mark as Scan Done\<close>, the only caller of \<open>handleStatusChange\<close>: it is
  rendered when the status is not \<open>SCAN_DONE\<close> and passes \<open>SCAN_DONE\<close>.
\<close>

definition mark_as_scan_done ::
  "'srv testService \<Rightarrow> TestImageUpload \<Rightarrow> 'srv \<Rightarrow> TestImageUpload \<times> 'srv" where
  "mark_as_scan_done tsts c srv =
     (if status (test c) \<noteq> SCAN_DONE then handleStatusChange tsts SCAN_DONE c srv else (c, srv))"

text \<open>A server that accepts every request of the test service and keeps a log of them,
  an image service that stores every upload under a given id, and a test and an upload
  component to run the handlers on.\<close>

definition recording_testService :: "(testService_call list) testService" where
  "recording_testService =
     \<lparr>createTest = (\<lambda>testData log. (Inr (), log @ [createTest_call testData])),
      updateTest = (\<lambda>testId updateData log. (Inr (), log @ [updateTest_call testId updateData])),
      generateReport =
        (\<lambda>testId reportData log. (Inr (), log @ [generateReport_call testId reportData]))\<rparr>"

definition accepting_imageService :: "nat \<Rightarrow> 'srv imageService" where
  "accepting_imageService new_id =
     \<lparr>uploadImage = (\<lambda>patientId imageType uploadedBy file srv.
        (Inr \<lparr>up_image_id = new_id, img_url = ''patient_2/ct/scan.png'',
              presigned_url = ''http://localhost:8002/files/patient_2/ct/scan.png''\<rparr>, srv)),
      deleteImage = (\<lambda>imageId srv. (Inr (), srv))\<rparr>"

definition example_test :: "TestStatus \<Rightarrow> nat option \<Rightarrow> MedicalTest" where
  "example_test st img =
     \<lparr>test_id = 5, patient_id = 2, doctor_id = 3, radiologist_id = Some 4,
      appointment_id = None, test_type = CT_SCAN, status = st, report_id = None,
      image_id = img, created_date = 100, updated_date = 100\<rparr>"

definition example_upload :: "MedicalTest \<Rightarrow> TestImageUpload" where
  "example_upload t =
     \<lparr>test = t,
      selectedFile = Some \<lparr>file_name = ''scan.png'', file_type = ''image/png'', file_size = 2048\<rparr>,
      uploading = False, deleting = False, updatingStatus = False,
      imageUrl = None, imageData = None, toasts = []\<rparr>"

section \<open>The doctor's component PatientTestView\<close>

text \<open>
  The form cells of \<open>PatientTestView\<close>. The radiologist select has the value \<open>''\<close>
  (here \<open>None\<close>) or a staff id, which \<open>parseInt\<close> reads back; the status select of
  the edit form offers \<open>Object.values(TEST_STATUS)\<close>, every status.
\<close>

record formData =
  fd_test_type :: ScanType
  fd_radiologist_id :: "nat option"

record editFormData =
  ed_test_type :: ScanType
  ed_radiologist_id :: "nat option"
  ed_status :: TestStatus

record PatientTestView =
  view_patient_id :: nat
  view_doctorId :: nat
  view_formData :: formData
  showCreateForm :: bool
  creating :: bool
  editingTest :: "MedicalTest option"
  view_editFormData :: "editFormData option"
  updating :: bool
  reportingTest :: "MedicalTest option"
  reportFormData :: ReportData
  showReportForm :: bool
  generatingReport :: bool
  view_error :: string
  view_toasts :: "toast list"

text \<open>
  \<open>handleCreateTest\<close> sends the form with the status \<open>TEST_STATUS.SCAN_TO_BE_TAKEN\<close>
  (\<open>formData.radiologist_id ? parseInt(formData.radiologist_id) : null\<close>: the id
  \<open>0\<close> would be the text \<open>'0'\<close>, which is true, so every selected id is sent).
  After a success the handlers of this component reload the list of tests with
  \<open>fetchTests()\<close>, a read that changes no test and is left out.
\<close>

definition handleCreateTest ::
  "'srv testService \<Rightarrow> PatientTestView \<Rightarrow> 'srv \<Rightarrow> PatientTestView \<times> 'srv" where
  "handleCreateTest tsts v srv =
     (let testData =
            \<lparr>new_patient_id = view_patient_id v,
             new_doctor_id = view_doctorId v,
             new_test_type = fd_test_type (view_formData v),
             new_radiologist_id = fd_radiologist_id (view_formData v),
             new_status = Some SCAN_TO_BE_TAKEN\<rparr>;
          (created, srv1) = createTest tsts testData srv
      in (case created of
            Inl err \<Rightarrow>
              (v\<lparr>view_error := error_text err ''Failed to create test'',
                 view_toasts := view_toasts v @ [toast_error (error_text err ''Failed to create test'')],
                 creating := False\<rparr>, srv1)
          | Inr _ \<Rightarrow>
              (v\<lparr>view_error := [],
                 view_toasts := view_toasts v @ [toast_success ''Test created successfully!''],
                 showCreateForm := False,
                 view_formData := \<lparr>fd_test_type = ABDOMINAL_ULTRASOUND, fd_radiologist_id = None\<rparr>,
                 creating := False\<rparr>, srv1)))"

text \<open>
  \<open>handleEditTest\<close> opens the edit form on a test; \<open>handleUpdateTest\<close> sends the
  form as it stands, the status included. The form is rendered, and can be submitted,
  only while a test is being edited.
\<close>

definition handleEditTest :: "MedicalTest \<Rightarrow> PatientTestView \<Rightarrow> PatientTestView" where
  "handleEditTest t v =
     v\<lparr>editingTest := Some t,
       view_editFormData :=
         Some \<lparr>ed_test_type = test_type t,
               ed_radiologist_id =
                 (case radiologist_id t of None \<Rightarrow> None
                  | Some r \<Rightarrow> if r \<noteq> 0 then Some r else None),
               ed_status = status t\<rparr>\<rparr>"

definition handleUpdateTest ::
  "'srv testService \<Rightarrow> PatientTestView \<Rightarrow> 'srv \<Rightarrow> PatientTestView \<times> 'srv" where
  "handleUpdateTest tsts v srv =
     (case (editingTest v, view_editFormData v) of
        (Some t, Some form) \<Rightarrow>
          let updateData =
                \<lparr>upd_test_type = Some (ed_test_type form),
                 upd_radiologist_id = Some (ed_radiologist_id form),
                 upd_status = Some (ed_status form),
                 upd_image_id = None\<rparr>;
              (updated, srv1) = updateTest tsts (test_id t) updateData srv
          in (case updated of
                Inl err \<Rightarrow>
                  (v\<lparr>view_error := error_text err ''Failed to update test'',
                     view_toasts :=
                       view_toasts v @ [toast_error (error_text err ''Failed to update test'')],
                     updating := False\<rparr>, srv1)
              | Inr _ \<Rightarrow>
                  (v\<lparr>view_error := [],
                     view_toasts := view_toasts v @ [toast_success ''Test updated successfully!''],
                     editingTest := None, view_editFormData := None,
                     updating := False\<rparr>, srv1))
      | _ \<Rightarrow> (v, srv))"

definition handleSubmitReport ::
  "'srv testService \<Rightarrow> PatientTestView \<Rightarrow> 'srv \<Rightarrow> PatientTestView \<times> 'srv" where
  "handleSubmitReport tsts v srv =
     (case reportingTest v of
        None \<Rightarrow> (v, srv)
      | Some t \<Rightarrow>
          let (generated, srv1) =
                generateReport tsts (test_id t)
                  \<lparr>rd_findings = rd_findings (reportFormData v),
                   rd_diagnosis = rd_diagnosis (reportFormData v)\<rparr> srv
          in (case generated of
                Inl err \<Rightarrow>
                  (v\<lparr>view_toasts :=
                       view_toasts v @ [toast_error (error_text err ''Failed to generate report'')],
                     generatingReport := False\<rparr>, srv1)
              | Inr _ \<Rightarrow>
                  (v\<lparr>view_toasts := view_toasts v @ [toast_success ''Report generated successfully!''],
                     showReportForm := False, reportingTest := None,
                     reportFormData := \<lparr>rd_findings = Some [], rd_diagnosis = Some []\<rparr>,
                     generatingReport := False\<rparr>, srv1)))"

section \<open>The shared store and the services' errors\<close>

text \<open>
  The services raise \<open>HTTPException(status_code, detail)\<close>. The tables of the one
  database all services connect to: \<open>users\<close> in table order (queries take the
  \<open>first()\<close> match), the others by primary key, with the next value of each
  autoincrement sequence. No column of a table is a foreign key into another
  service's table.
\<close>

datatype HTTPException = HTTPException (status_code: nat) (exc_detail: string)

datatype UserType = PATIENT | STAFF

fun UserType_value :: "UserType \<Rightarrow> string" where
  "UserType_value PATIENT = ''patient''"
| "UserType_value STAFF = ''staff''"

record User =
  user_id :: nat
  name :: string
  email :: string
  password_hash :: string
  phone :: "string option"
  address :: "string option"
  is_active :: "bool option"
  user_type :: UserType

datatype AppointmentStatus = SCHEDULED | COMPLETED | APPT_CANCELLED | NO_SHOW

record Appointment =
  appt_appointment_id :: nat
  appt_patient_id :: nat
  appt_doctor_id :: nat
  appointment_date :: nat
  appt_status :: AppointmentStatus
  payment_id :: "nat option"
  created_by :: nat
  appt_notes :: "string option"

datatype BillingStatus = UNPAID | BILL_PENDING | PAID | OVERDUE | CANCELLED

text \<open>The row of \<open>billing_details\<close> (class \<open>BillingDetails\<close>); \<open>base_cost\<close> is a
  \<open>Float\<close> column, which is only stored and compared here.\<close>

record BillingDetails =
  billing_id :: nat
  bill_patient_id :: nat
  bill_appointment_id :: "nat option"
  procedure :: string
  base_cost :: real
  bill_status :: BillingStatus
  created_at :: nat
  updated_at :: nat
  bill_report_id :: "nat option"

record store =
  users :: "User list"
  appointments :: "nat \<rightharpoonup> Appointment"
  tests :: "nat \<rightharpoonup> MedicalTest"
  reports :: "nat \<rightharpoonup> DiagnosisReport"
  billings :: "nat \<rightharpoonup> BillingDetails"
  next_test_id :: nat
  next_report_id :: nat
  next_billing_id :: nat

text \<open>What the client's service throws for a rejected request: the response's body,
  which carries the exception's \<open>detail\<close>.\<close>

definition response_error :: "HTTPException \<Rightarrow> js_error" where
  "response_error e = \<lparr>detail = Some (exc_detail e), message = None\<rparr>"

section \<open>User service: login and tokens\<close>

text \<open>
  \<open>pwd_context = CryptContext(schemes=["bcrypt"])\<close> is a library object: its
  \<open>hash\<close> (which draws a salt) and its \<open>verify\<close> are parameters here.
\<close>

record CryptContext =
  ctx_hash :: "string \<Rightarrow> string \<Rightarrow> string"
  ctx_verify :: "string \<Rightarrow> string \<Rightarrow> bool"

definition hash_password :: "CryptContext \<Rightarrow> string \<Rightarrow> string \<Rightarrow> string" where
  "hash_password pwd_context salt password = ctx_hash pwd_context salt password"

definition verify_password :: "CryptContext \<Rightarrow> string \<Rightarrow> string \<Rightarrow> bool" where
  "verify_password pwd_context plain_password hashed_password =
     ctx_verify pwd_context plain_password hashed_password"

text \<open>
  The \<open>jwt\<close> library: a token is its claims and a signature of them under the key
  (the signing function \<open>HS256\<close> is a parameter); \<open>decode\<close> refuses a token whose
  signature is not the key's or whose \<open>exp\<close> claim lies before the present time.
\<close>

record claims =
  sub_claim :: "string option"
  user_type_claim :: "string option"
  exp_claim :: "nat option"

record jwt =
  jwt_claims :: claims
  jwt_signature :: string

datatype JWTError = InvalidSignature | ExpiredSignature

definition jwt_encode :: "(string \<Rightarrow> claims \<Rightarrow> string) \<Rightarrow> claims \<Rightarrow> string \<Rightarrow> jwt" where
  "jwt_encode sign to_encode key = \<lparr>jwt_claims = to_encode, jwt_signature = sign key to_encode\<rparr>"

definition jwt_decode ::
  "(string \<Rightarrow> claims \<Rightarrow> string) \<Rightarrow> nat \<Rightarrow> jwt \<Rightarrow> string \<Rightarrow> JWTError + claims" where
  "jwt_decode sign now token key =
     (if jwt_signature token \<noteq> sign key (jwt_claims token) then Inl InvalidSignature
      else case exp_claim (jwt_claims token) of
             None \<Rightarrow> Inr (jwt_claims token)
           | Some e \<Rightarrow> if e < now then Inl ExpiredSignature else Inr (jwt_claims token))"

definition ACCESS_TOKEN_EXPIRE_MINUTES :: nat where
  "ACCESS_TOKEN_EXPIRE_MINUTES = 30"

text \<open>
  \<open>create_access_token(data, expires_delta)\<close> of auth.py ends in
  \<^verbatim>\<open>encoded_jwt = jwt.encode(to_encode, SECRET_KEY, algorithm=ALGORITHM)\<close>.
  Modelled from the spec: how \<open>to_encode\<close> gets its expiry, which the quoted
  source leaves out. The spec: the claims carry an expiry, a fixed window from the time
  of issue; the window is \<open>expires_delta\<close> (login passes
  \<open>ACCESS_TOKEN_EXPIRE_MINUTES\<close>), and the same constant without one.
\<close>

definition create_access_token ::
  "(string \<Rightarrow> claims \<Rightarrow> string) \<Rightarrow> string \<Rightarrow> claims \<Rightarrow> nat option \<Rightarrow> nat \<Rightarrow> jwt" where
  "create_access_token sign SECRET_KEY data expires_delta now =
     (let expire = now + (case expires_delta of
                            Some d \<Rightarrow> d
                          | None \<Rightarrow> ACCESS_TOKEN_EXPIRE_MINUTES * 60);
          to_encode = data\<lparr>exp_claim := Some expire\<rparr>
      in jwt_encode sign to_encode SECRET_KEY)"

text \<open>
  \<open>verify_token(token, credentials_exception)\<close>:
  \<^verbatim>\<open>payload = jwt.decode(token, SECRET_KEY, algorithms=[ALGORITHM])\<close>,
  \<^verbatim>\<open>return int(payload.get("sub"))\<close>. A token that does not decode, or whose
  subject is not a number, raises the caller's exception. It reads no table.
\<close>

definition verify_token ::
  "(string \<Rightarrow> claims \<Rightarrow> string) \<Rightarrow> string \<Rightarrow> nat \<Rightarrow> jwt \<Rightarrow> HTTPException \<Rightarrow> HTTPException + nat" where
  "verify_token sign SECRET_KEY now token credentials_exception =
     (case jwt_decode sign now token SECRET_KEY of
        Inl _ \<Rightarrow> Inl credentials_exception
      | Inr payload \<Rightarrow>
          (case sub_claim payload of
             None \<Rightarrow> Inl credentials_exception
           | Some s \<Rightarrow>
               (case py_int s of
                  None \<Rightarrow> Inl credentials_exception
                | Some uid \<Rightarrow> Inr uid)))"

record UserLogin =
  login_email :: string
  login_password :: string

record Token =
  access_token :: jwt
  token_type :: string
  token_user :: User

text \<open>
  \<open>login_user\<close> of the user service's routes.py:
  \<^verbatim>\<open>user = db.query(models.User).filter(models.User.email == credentials.email).first()\<close>
  \<^verbatim>\<open>if not user or not verify_password(credentials.password, user.password_hash):\<close>
  \<^verbatim>\<open>    raise HTTPException(status_code=401, detail="Invalid credentials")\<close>
  \<^verbatim>\<open>if not user.is_active:\<close>
  \<^verbatim>\<open>    raise HTTPException(status_code=403, detail="Account deactivated")\<close>
  and then the token for \<open>{"sub": str(user.user_id), "user_type": user.user_type.value}\<close>.
\<close>

definition login_user ::
  "CryptContext \<Rightarrow> (string \<Rightarrow> claims \<Rightarrow> string) \<Rightarrow> string \<Rightarrow> store \<Rightarrow> UserLogin \<Rightarrow> nat
     \<Rightarrow> HTTPException + Token" where
  "login_user pwd_context sign SECRET_KEY db credentials now =
     (case find (\<lambda>u. email u = login_email credentials) (users db) of
        None \<Rightarrow> Inl (HTTPException 401 ''Invalid credentials'')
      | Some user \<Rightarrow>
          if \<not> verify_password pwd_context (login_password credentials) (password_hash user)
          then Inl (HTTPException 401 ''Invalid credentials'')
          else if \<not> py_truthy_bool (is_active user)
          then Inl (HTTPException 403 ''Account deactivated'')
          else Inr \<lparr>access_token =
                      create_access_token sign SECRET_KEY
                        \<lparr>sub_claim = Some (py_str (user_id user)),
                         user_type_claim = Some (UserType_value (user_type user)),
                         exp_claim = None\<rparr>
                        (Some (ACCESS_TOKEN_EXPIRE_MINUTES * 60)) now,
                    token_type = ''bearer'',
                    token_user = user\<rparr>)"

text \<open>An authentication or authorization failure: status 401 or 403.\<close>

definition AuthError :: "HTTPException \<Rightarrow> bool" where
  "AuthError e = (status_code e = 401 \<or> status_code e = 403)"

text \<open>
  Modelled from the spec: the handlers of \<open>PUT /api/v1/users/{user_id}/activate\<close>
  and \<open>/deactivate\<close>, of which the sources quote \<open>user.is_active = True\<close>,
  \<open>db.commit()\<close>. The spec: \<open>setActive(identityId, active)\<close> is an
  administrative toggle; it writes the flag of the user with that id and nothing else.
\<close>

definition set_active :: "store \<Rightarrow> nat \<Rightarrow> bool \<Rightarrow> HTTPException + store" where
  "set_active db uid active =
     (case find (\<lambda>u. user_id u = uid) (users db) of
        None \<Rightarrow> Inl (HTTPException 404 ''User not found'')
      | Some _ \<Rightarrow>
          Inr (db\<lparr>users := map (\<lambda>u. if user_id u = uid then u\<lparr>is_active := Some active\<rparr> else u)
                              (users db)\<rparr>))"

text \<open>
  A user service with its library objects, its key and the store, and the operations
  of the spec on it: \<open>authenticate\<close> is \<open>login_user\<close>, \<open>verify\<close> is
  \<open>verify_token\<close> with the exception of an authentication failure, and
  \<open>setActive\<close> is the toggle (an unknown id changes nothing).
\<close>

record user_service =
  svc_pwd_context :: CryptContext
  svc_sign :: "string \<Rightarrow> claims \<Rightarrow> string"
  svc_SECRET_KEY :: string
  svc_db :: store

definition authenticate :: "user_service \<Rightarrow> string \<Rightarrow> string \<Rightarrow> nat \<Rightarrow> HTTPException + Token" where
  "authenticate svc contact_key credential now =
     login_user (svc_pwd_context svc) (svc_sign svc) (svc_SECRET_KEY svc) (svc_db svc)
       \<lparr>login_email = contact_key, login_password = credential\<rparr> now"

definition verify :: "user_service \<Rightarrow> jwt \<Rightarrow> nat \<Rightarrow> HTTPException + nat" where
  "verify svc token now =
     verify_token (svc_sign svc) (svc_SECRET_KEY svc) now token
       (HTTPException 401 ''Could not validate credentials'')"

definition setActive :: "user_service \<Rightarrow> nat \<Rightarrow> bool \<Rightarrow> user_service" where
  "setActive svc identityId active =
     (case set_active (svc_db svc) identityId active of
        Inl _ \<Rightarrow> svc
      | Inr db' \<Rightarrow> svc\<lparr>svc_db := db'\<rparr>)"

text \<open>A user service to run on: a toy password context (the digest is the reversed
  secret, whatever the salt), a toy signature, and two users.\<close>

definition toy_pwd_context :: CryptContext where
  "toy_pwd_context =
     \<lparr>ctx_hash = (\<lambda>salt secret. rev secret),
      ctx_verify = (\<lambda>secret digest. digest = rev secret)\<rparr>"

definition toy_sign :: "string \<Rightarrow> claims \<Rightarrow> string" where
  "toy_sign key c = key @ ''.'' @ (case sub_claim c of None \<Rightarrow> [] | Some s \<Rightarrow> s)"

definition empty_store :: store where
  "empty_store =
     \<lparr>users = [], appointments = Map.empty, tests = Map.empty, reports = Map.empty,
      billings = Map.empty, next_test_id = 1, next_report_id = 1, next_billing_id = 1\<rparr>"

definition example_user :: "nat \<Rightarrow> string \<Rightarrow> string \<Rightarrow> bool \<Rightarrow> User" where
  "example_user uid mail secret active =
     \<lparr>user_id = uid, name = ''Ada'', email = mail,
      password_hash = hash_password toy_pwd_context ''salt'' secret,
      phone = None, address = None, is_active = Some active, user_type = PATIENT\<rparr>"

definition example_service :: user_service where
  "example_service =
     \<lparr>svc_pwd_context = toy_pwd_context, svc_sign = toy_sign,
      svc_SECRET_KEY = ''your-secret-key-change-this-in-production'',
      svc_db = empty_store\<lparr>users := [example_user 12 ''ada@example.org'' ''lovelace'' True,
                                       example_user 13 ''bob@example.org'' ''builder'' False]\<rparr>\<rparr>"

section \<open>Diagnosis and workflow service: creating tests and generating reports\<close>

text \<open>
  Modelled from the spec: the handler of \<open>POST /api/v1/tests/\<close>
  (diagnosis-workflow-service routes.py), which is not among the sources. The spec:
  a test is created with patient id, scan type and optional radiologist assignment,
  its initial status is \<open>to_be_taken\<close>, and an id that names no patient, doctor or
  radiologist is accepted. The row takes the patient, the doctor, the scan type and
  the radiologist of the request; its status is the initial one, \<open>SCAN_TO_BE_TAKEN\<close>
  (the default of the column in the class \<open>MedicalTest\<close>, and the status every
  request of the client names); it has no report id and no image id.
\<close>

definition create_test :: "store \<Rightarrow> MedicalTestCreate \<Rightarrow> nat \<Rightarrow> HTTPException + store \<times> MedicalTest" where
  "create_test db testData now =
     (let new_test =
            \<lparr>test_id = next_test_id db,
             patient_id = new_patient_id testData,
             doctor_id = new_doctor_id testData,
             radiologist_id = new_radiologist_id testData,
             appointment_id = None,
             test_type = new_test_type testData,
             status = SCAN_TO_BE_TAKEN,
             report_id = None,
             image_id = None,
             created_date = now,
             updated_date = now\<rparr>
      in Inr (db\<lparr>tests := (tests db)(next_test_id db \<mapsto> new_test),
                 next_test_id := Suc (next_test_id db)\<rparr>, new_test))"

text \<open>The test service of the client in front of this handler.\<close>

definition server_createTest ::
  "nat \<Rightarrow> MedicalTestCreate \<Rightarrow> store \<Rightarrow> (js_error + unit) \<times> store" where
  "server_createTest now testData db =
     (case create_test db testData now of
        Inl e \<Rightarrow> (Inl (response_error e), db)
      | Inr (db', _) \<Rightarrow> (Inr (), db'))"

text \<open>
  Modelled from the spec: the handler of \<open>POST /api/v1/tests/{test_id}/generate-report\<close>,
  which is not among the sources. The spec: report generation is accepted whenever an
  image id is present on the test, independent of the test's status; repeated calls
  update the existing report rather than create a new one; the test keeps the report's
  id. The report's status is the selection quoted above. An unknown test is not found
  (404); a test without an image is a validation error (400).
\<close>

definition generate_report ::
  "store \<Rightarrow> nat \<Rightarrow> ReportData \<Rightarrow> nat \<Rightarrow> HTTPException + store \<times> MedicalTest" where
  "generate_report db testId reportData now =
     (case tests db testId of
        None \<Rightarrow> Inl (HTTPException 404 ''Test not found'')
      | Some t \<Rightarrow>
          (case image_id t of
             None \<Rightarrow> Inl (HTTPException 400 ''Test has no image'')
           | Some img \<Rightarrow>
               let st = report_status_selection (rd_findings reportData) (rd_diagnosis reportData);
                   existing = (case report_id t of None \<Rightarrow> None
                               | Some rid \<Rightarrow> (case reports db rid of None \<Rightarrow> None
                                              | Some r \<Rightarrow> Some (rid, r)))
               in (case existing of
                     Some (rid, r) \<Rightarrow>
                       Inr (db\<lparr>reports := (reports db)(rid \<mapsto>
                                   r\<lparr>rep_image_id := Some img,
                                     findings := rd_findings reportData,
                                     diagnosis := rd_diagnosis reportData,
                                     rep_status := st,
                                     rep_updated_date := now\<rparr>)\<rparr>, t)
                   | None \<Rightarrow>
                       let rid = next_report_id db;
                           t' = t\<lparr>report_id := Some rid, updated_date := now\<rparr>
                       in Inr (db\<lparr>reports := (reports db)(rid \<mapsto>
                                      \<lparr>rep_report_id = rid,
                                       rep_patient_id = patient_id t,
                                       staff_id = doctor_id t,
                                       rep_image_id = Some img,
                                       findings = rd_findings reportData,
                                       diagnosis = rd_diagnosis reportData,
                                       recommendations = None,
                                       rep_status = st,
                                       rep_updated_date = now\<rparr>),
                                  tests := (tests db)(testId \<mapsto> t'),
                                  next_report_id := Suc rid\<rparr>, t'))))"

section \<open>Financial service\<close>

text \<open>The request body of \<open>createBilling(billingData)\<close> of billingService.js; a key
  that is left out is \<open>None\<close>.\<close>

record BillingDetailsCreate =
  c_patient_id :: nat
  c_appointment_id :: "nat option"
  c_procedure :: string
  c_base_cost :: real
  c_status :: "BillingStatus option"
  c_report_id :: "nat option"

text \<open>
  Modelled from the spec: the handlers of \<open>POST /api/v1/billing/\<close> and
  \<open>GET /api/v1/billing/{billing_id}\<close> (financial-service routes.py), which are not
  among the sources. The spec: \<open>createBill(patientId, appointmentId, procedureText,
  cost)\<close> gives a bill with initial status \<open>unpaid\<close>, with no validation that the
  appointment exists; a bill that does not exist is not found (404). The status
  \<open>UNPAID\<close> is the column's default, for a request that names none.
\<close>

definition create_billing ::
  "store \<Rightarrow> BillingDetailsCreate \<Rightarrow> nat \<Rightarrow> HTTPException + store \<times> BillingDetails" where
  "create_billing db billingData now =
     (let new_billing =
            \<lparr>billing_id = next_billing_id db,
             bill_patient_id = c_patient_id billingData,
             bill_appointment_id = c_appointment_id billingData,
             procedure = c_procedure billingData,
             base_cost = c_base_cost billingData,
             bill_status = (case c_status billingData of None \<Rightarrow> UNPAID | Some st \<Rightarrow> st),
             created_at = now,
             updated_at = now,
             bill_report_id = c_report_id billingData\<rparr>
      in Inr (db\<lparr>billings := (billings db)(next_billing_id db \<mapsto> new_billing),
                 next_billing_id := Suc (next_billing_id db)\<rparr>, new_billing))"

definition get_billing :: "store \<Rightarrow> nat \<Rightarrow> HTTPException + BillingDetails" where
  "get_billing db billingId =
     (case billings db billingId of
        None \<Rightarrow> Inl (HTTPException 404 ''Billing record not found'')
      | Some b \<Rightarrow> Inr b)"

text \<open>
  Modelled from the spec: the handlers of \<open>PUT /api/v1/billing/{billing_id}\<close> and
  \<open>PUT /api/v1/billing/{billing_id}/pay\<close>, which are not among the sources. The
  spec: \<open>updateStatus(billId, newStatus)\<close>; any status may follow any other status,
  and \<open>paid\<close> is not terminal. The update writes the status it is given, whatever
  the bill's status, and no other field of the bill; paying writes the status
  \<open>PAID\<close>. A bill that does not exist is not found (404).
\<close>

definition update_status ::
  "store \<Rightarrow> nat \<Rightarrow> BillingStatus \<Rightarrow> nat \<Rightarrow> HTTPException + store \<times> BillingDetails" where
  "update_status db billingId newStatus now =
     (case billings db billingId of
        None \<Rightarrow> Inl (HTTPException 404 ''Billing record not found'')
      | Some b \<Rightarrow>
          let b' = b\<lparr>bill_status := newStatus, updated_at := now\<rparr>
          in Inr (db\<lparr>billings := (billings db)(billingId \<mapsto> b')\<rparr>, b'))"

definition mark_as_paid :: "store \<Rightarrow> nat \<Rightarrow> nat \<Rightarrow> HTTPException + store \<times> BillingDetails" where
  "mark_as_paid db billingId now =
     (case billings db billingId of
        None \<Rightarrow> Inl (HTTPException 404 ''Billing record not found'')
      | Some b \<Rightarrow>
          let b' = b\<lparr>bill_status := PAID, updated_at := now\<rparr>
          in Inr (db\<lparr>billings := (billings db)(billingId \<mapsto> b')\<rparr>, b'))"

text \<open>
  Deleting a bill (\<open>db.delete(billing); db.commit()\<close>, behind
  \<open>billingService.deleteBilling\<close>): the row is gone; its id is not given out again.
\<close>

definition delete_billing :: "store \<Rightarrow> nat \<Rightarrow> HTTPException + store" where
  "delete_billing db billingId =
     (case billings db billingId of
        None \<Rightarrow> Inl (HTTPException 404 ''Billing record not found'')
      | Some _ \<Rightarrow> Inr (db\<lparr>billings := (billings db)(billingId := None)\<rparr>))"

text \<open>
  The requests that change a bill, as the client's components send them:
  \<open>createBilling\<close> (from \<open>handleSubmit\<close> of \<open>PaymentsView\<close>),
  \<open>handleStatusUpdate\<close>, which calls
  \<open>billingService.updateBilling(billingId, { status: newStatus })\<close>, the status update,
  \<open>markAsPaid\<close> and \<open>deleteBilling\<close>. A rejected request changes nothing.
\<close>

datatype billing_request =
    createBilling BillingDetailsCreate
  | handleStatusUpdate nat BillingStatus
  | markAsPaid nat
  | deleteBilling nat

fun billing_step :: "nat \<Rightarrow> store \<Rightarrow> billing_request \<Rightarrow> store" where
  "billing_step now db (createBilling billingData) =
     (case create_billing db billingData now of Inl _ \<Rightarrow> db | Inr (db', _) \<Rightarrow> db')"
| "billing_step now db (handleStatusUpdate billingId newStatus) =
     (case update_status db billingId newStatus now of
        Inl _ \<Rightarrow> db | Inr (db', _) \<Rightarrow> db')"
| "billing_step now db (markAsPaid billingId) =
     (case mark_as_paid db billingId now of Inl _ \<Rightarrow> db | Inr (db', _) \<Rightarrow> db')"
| "billing_step now db (deleteBilling billingId) =
     (case delete_billing db billingId of Inl _ \<Rightarrow> db | Inr db' \<Rightarrow> db')"

text \<open>A run of requests, one per second.\<close>

fun billing_run :: "nat \<Rightarrow> store \<Rightarrow> billing_request list \<Rightarrow> store" where
  "billing_run now db [] = db"
| "billing_run now db (request # rest) = billing_run (Suc now) (billing_step now db request) rest"

text \<open>A store with one paid bill of 150.00 for an appointment that no table holds.\<close>

definition paid_bill :: BillingDetails where
  "paid_bill =
     \<lparr>billing_id = 1, bill_patient_id = 2, bill_appointment_id = Some 77,
      procedure = ''CT Scan'', base_cost = 150, bill_status = PAID,
      created_at = 10, updated_at = 20, bill_report_id = None\<rparr>"

definition paid_store :: store where
  "paid_store = empty_store\<lparr>billings := [1 \<mapsto> paid_bill], next_billing_id := 2\<rparr>"

definition example_billingData :: BillingDetailsCreate where
  "example_billingData =
     \<lparr>c_patient_id = 2, c_appointment_id = Some 77, c_procedure = ''CT Scan'',
      c_base_cost = 150, c_status = Some UNPAID, c_report_id = None\<rparr>"

text \<open>A store with one test that has an image and no report.\<close>

definition imaged_store :: store where
  "imaged_store =
     empty_store\<lparr>tests := [5 \<mapsto> example_test SCAN_IN_PROGRESS (Some 9)], next_test_id := 6\<rparr>"

definition example_view :: PatientTestView where
  "example_view =
     \<lparr>view_patient_id = 2, view_doctorId = 3,
      view_formData = \<lparr>fd_test_type = MRI_SCAN, fd_radiologist_id = Some 4\<rparr>,
      showCreateForm = True, creating = False, editingTest = None, view_editFormData = None,
      updating = False, reportingTest = None,
      reportFormData = \<lparr>rd_findings = Some [], rd_diagnosis = Some []\<rparr>,
      showReportForm = False, generatingReport = False, view_error = [], view_toasts = []\<rparr>"

section \<open>Report status\<close>

lemma py_truthy_py_or: "py_truthy (py_or a b) = (py_truthy a \<or> py_truthy b)"
  by (simp add: py_or_def)

lemma py_truthy_non_empty: "py_truthy v = (\<exists>s. v = Some s \<and> s \<noteq> [])"
  by (cases v) (simp_all add: py_truthy_def)

text \<open>
  C10. Report generation assigns FINALIZED exactly when a non-empty findings or diagnosis
  text was supplied, PENDING otherwise, and no other status.
\<close>

theorem report_status_selection_finalized_iff:
  "(report_status_selection fnd dgn = FINALIZED)
      = ((\<exists>s. fnd = Some s \<and> s \<noteq> []) \<or> (\<exists>s. dgn = Some s \<and> s \<noteq> []))
   \<and> (report_status_selection fnd dgn = PENDING)
      = (\<not> ((\<exists>s. fnd = Some s \<and> s \<noteq> []) \<or> (\<exists>s. dgn = Some s \<and> s \<noteq> [])))
   \<and> (report_status_selection fnd dgn = FINALIZED \<or> report_status_selection fnd dgn = PENDING)"
  by (simp add: report_status_selection_def py_truthy_py_or)
    (simp add: py_truthy_non_empty)

section \<open>Image upload and the status of a test\<close>



text \<open>
  C7, as stated, fails: the status of a test can move backward. On a test that is
  \<open>SCAN_DONE\<close> and has an image, replacing the image with \<open>handleUpload\<close> sets the
  status to \<open>SCAN_IN_PROGRESS\<close>, in the component and in the update it sends; and
  the doctor's edit form, opened on that test with \<open>Scan to be taken\<close> selected, sends
  an update with the status \<open>SCAN_TO_BE_TAKEN\<close>.
\<close>

theorem status_moves_backward_counterexample:
  "status (test (example_upload (example_test SCAN_DONE (Some 8)))) = SCAN_DONE
   \<and> status (test (fst (handleUpload (accepting_imageService 9) recording_testService 4
          (example_upload (example_test SCAN_DONE (Some 8))) []))) = SCAN_IN_PROGRESS
   \<and> status_rank (status (test (fst (handleUpload (accepting_imageService 9)
          recording_testService 4 (example_upload (example_test SCAN_DONE (Some 8))) []))))
       < status_rank (status (test (example_upload (example_test SCAN_DONE (Some 8)))))
   \<and> snd (handleUpload (accepting_imageService 9) recording_testService 4
          (example_upload (example_test SCAN_DONE (Some 8))) [])
       = [updateTest_call 5 \<lparr>upd_test_type = None, upd_radiologist_id = None,
                              upd_status = Some SCAN_IN_PROGRESS,
                              upd_image_id = Some (Some 9)\<rparr>]
   \<and> snd (handleUpdateTest recording_testService
            ((handleEditTest (example_test SCAN_DONE (Some 8)) example_view)
               \<lparr>view_editFormData :=
                  Some \<lparr>ed_test_type = CT_SCAN, ed_radiologist_id = Some 4,
                        ed_status = SCAN_TO_BE_TAKEN\<rparr>\<rparr>) [])
       = [updateTest_call 5 \<lparr>upd_test_type = Some CT_SCAN,
                              upd_radiologist_id = Some (Some 4),
                              upd_status = Some SCAN_TO_BE_TAKEN, upd_image_id = None\<rparr>]"
  by (simp add: handleUpload_def handleUpdateTest_def handleEditTest_def
      accepting_imageService_def recording_testService_def example_upload_def example_test_def
      example_view_def)

lemma handleStatusChange_status:
  "status (test (fst (handleStatusChange tsts newStatus c srv))) = newStatus
   \<or> status (test (fst (handleStatusChange tsts newStatus c srv))) = status (test c)"
  by (simp add: handleStatusChange_def split: prod.splits sum.splits)

lemma handleDeleteImage_status:
  "status (test (fst (handleDeleteImage imgs tsts confirmed c srv))) = status (test c)"
  by (simp add: handleDeleteImage_def split: option.splits prod.splits sum.splits)

lemma handleUpdateTest_sends:
  "editingTest v = Some t \<Longrightarrow> view_editFormData v = Some form \<Longrightarrow>
   snd (handleUpdateTest recording_testService v calls)
     = calls @ [updateTest_call (test_id t)
                \<lparr>upd_test_type = Some (ed_test_type form),
                 upd_radiologist_id = Some (ed_radiologist_id form),
                 upd_status = Some (ed_status form), upd_image_id = None\<rparr>]"
  by (simp add: handleUpdateTest_def recording_testService_def)

text \<open>
  C7, amended. No method of the test service sends a \<open>DELETE\<close> request, so no
  operation of the client deletes a test; the radiologist's status change (the button
  \<open>Mark as Scan Done\<close>) and the deletion of an image never move the status backward.
  The status is not monotonic beyond that: the doctor's edit form sends whichever
  status it holds, whatever the status of the test it edits (and an upload sets
  \<open>SCAN_IN_PROGRESS\<close>, as shown above).
\<close>

theorem test_never_deleted_mark_done_forward:
  "fst (testService_request call) \<noteq> DELETE
   \<and> status_rank (status (test c))
       \<le> status_rank (status (test (fst (mark_as_scan_done tsts c srv))))
   \<and> status (test (fst (handleDeleteImage imgs tsts confirmed c srv))) = status (test c)
   \<and> snd (handleUpdateTest recording_testService
            (v\<lparr>editingTest := Some t,
               view_editFormData := Some \<lparr>ed_test_type = ty, ed_radiologist_id = rad,
                                          ed_status = st\<rparr>\<rparr>) calls)
       = calls @ [updateTest_call (test_id t)
                  \<lparr>upd_test_type = Some ty, upd_radiologist_id = Some rad,
                   upd_status = Some st, upd_image_id = None\<rparr>]"
proof -
  have "fst (testService_request call) \<noteq> DELETE"
    by (cases call) simp_all
  moreover have "status_rank (status (test c))
       \<le> status_rank (status (test (fst (mark_as_scan_done tsts c srv))))"
    using handleStatusChange_status [of tsts SCAN_DONE c srv]
    by (cases "status (test c)") (auto simp: mark_as_scan_done_def)
  ultimately show ?thesis
    by (simp add: handleDeleteImage_status handleUpdateTest_sends)
qed

theorem test_never_deleted_mark_done_forward_witness:
  "fst (testService_request (updateTest_call 5 \<lparr>upd_test_type = None, upd_radiologist_id = None,
          upd_status = Some SCAN_DONE, upd_image_id = None\<rparr>)) = PUT
   \<and> status (test (fst (mark_as_scan_done recording_testService
          (example_upload (example_test SCAN_IN_PROGRESS (Some 8))) []))) = SCAN_DONE
   \<and> snd (handleUpdateTest recording_testService
            (example_view\<lparr>editingTest := Some (example_test SCAN_DONE (Some 8)),
               view_editFormData := Some \<lparr>ed_test_type = CT_SCAN, ed_radiologist_id = Some 4,
                                          ed_status = SCAN_TO_BE_TAKEN\<rparr>\<rparr>) [])
       = [updateTest_call 5
            \<lparr>upd_test_type = Some CT_SCAN, upd_radiologist_id = Some (Some 4),
             upd_status = Some SCAN_TO_BE_TAKEN, upd_image_id = None\<rparr>]"
  using test_never_deleted_mark_done_forward
    [where call = "updateTest_call 5 \<lparr>upd_test_type = None, upd_radiologist_id = None,
          upd_status = Some SCAN_DONE, upd_image_id = None\<rparr>"
       and c = "example_upload (example_test SCAN_IN_PROGRESS (Some 8))"
       and tsts = recording_testService and srv = "[]"
       and imgs = "accepting_imageService 9" and confirmed = True
       and v = example_view and t = "example_test SCAN_DONE (Some 8)"
       and ty = CT_SCAN and rad = "Some 4" and st = SCAN_TO_BE_TAKEN and calls = "[]"]
  by (simp add: mark_as_scan_done_def handleStatusChange_def recording_testService_def
      example_upload_def example_test_def)

section \<open>Authentication\<close>

lemma digit_value_digit_char:
  assumes "d < 10"
  shows "digit_value (digit_char d) = Some d"
proof -
  from assms have "d \<in> {0, 1, 2, 3, 4, 5, 6, 7, 8, 9}"
    by auto
  then show ?thesis
    by (auto simp: digit_value_def digit_char_def decimal_digits_def)
qed

lemma int_digits_append:
  "int_digits acc (xs @ ys) = (case int_digits acc xs of None \<Rightarrow> None | Some a \<Rightarrow> int_digits a ys)"
  by (induction xs arbitrary: acc) (auto split: option.splits)

lemma int_digits_py_str: "int_digits 0 (py_str n) = Some n"
proof (induction n rule: py_str.induct)
  case (1 n)
  show ?case
  proof (cases "n < 10")
    case True
    then show ?thesis
      by (subst py_str.simps) (simp add: digit_value_digit_char)
  next
    case False
    then have "int_digits 0 (py_str (n div 10)) = Some (n div 10)"
      using "1.IH" by simp
    moreover have "n mod 10 < 10" by simp
    ultimately show ?thesis
      using False
      by (subst py_str.simps) (simp add: int_digits_append digit_value_digit_char)
  qed
qed

lemma py_str_not_empty: "py_str n \<noteq> []"
  by (subst py_str.simps) simp

text \<open>\<open>int(str(n)) == n\<close>: the subject of a token names the user it was issued to.\<close>

lemma py_int_py_str: "py_int (py_str n) = Some n"
  by (simp add: py_int_def py_str_not_empty int_digits_py_str)

text \<open>The e-mail column is unique, so the query by e-mail finds the user who has it.\<close>

lemma find_by_email:
  "distinct (map email us) \<Longrightarrow> u \<in> set us \<Longrightarrow> find (\<lambda>x. email x = email u) us = Some u"
proof (induction us)
  case Nil
  then show ?case by simp
next
  case (Cons a us)
  then show ?case by (auto simp: image_iff)
qed

lemma verify_created_token:
  "later \<le> now + d \<Longrightarrow>
   verify_token sign key later
     (create_access_token sign key
        \<lparr>sub_claim = Some (py_str uid), user_type_claim = ut, exp_claim = None\<rparr> (Some d) now) exc
   = Inr uid"
  by (simp add: verify_token_def create_access_token_def jwt_decode_def jwt_encode_def Let_def
      py_int_py_str)

text \<open>
  C2. For a contact key and credential that were registered (the user's row holds
  \<open>hash_password\<close> of the credential, which the password context verifies against
  the credential; e-mails are unique) and whose user is active, \<open>authenticate\<close>
  issues a token, and \<open>verify\<close> of that token, up to its expiry, yields the user's
  id.
\<close>

theorem authenticate_then_verify:
  assumes "verify_password (svc_pwd_context svc) credential
             (hash_password (svc_pwd_context svc) salt credential)"
    and "distinct (map email (users (svc_db svc)))"
    and "user \<in> set (users (svc_db svc))"
    and "password_hash user = hash_password (svc_pwd_context svc) salt credential"
    and "is_active user = Some True"
    and "later \<le> now + ACCESS_TOKEN_EXPIRE_MINUTES * 60"
  shows "\<exists>token. authenticate svc (email user) credential now = Inr token
           \<and> verify svc (access_token token) later = Inr (user_id user)"
  using assms
  by (simp add: authenticate_def login_user_def find_by_email py_truthy_bool_def verify_def
      verify_created_token)

theorem authenticate_then_verify_witness:
  "\<exists>token. authenticate example_service ''ada@example.org'' ''lovelace'' 1000 = Inr token
      \<and> verify example_service (access_token token) 2800 = Inr 12"
proof -
  let ?u = "example_user 12 ''ada@example.org'' ''lovelace'' True"
  have h1: "verify_password (svc_pwd_context example_service) ''lovelace''
              (hash_password (svc_pwd_context example_service) ''salt'' ''lovelace'')"
    by (simp add: example_service_def toy_pwd_context_def verify_password_def hash_password_def)
  have h2: "distinct (map email (users (svc_db example_service)))"
    by (simp add: example_service_def example_user_def)
  have h3: "?u \<in> set (users (svc_db example_service))"
    by (simp add: example_service_def)
  have h4: "password_hash ?u = hash_password (svc_pwd_context example_service) ''salt'' ''lovelace''"
    by (simp add: example_service_def example_user_def)
  have h5: "is_active ?u = Some True"
    by (simp add: example_user_def)
  have h6: "(2800::nat) \<le> 1000 + ACCESS_TOKEN_EXPIRE_MINUTES * 60"
    by (simp add: ACCESS_TOKEN_EXPIRE_MINUTES_def)
  from authenticate_then_verify [OF h1 h2 h3 h4 h5 h6]
  show ?thesis by (simp add: example_user_def)
qed

text \<open>
  C3. For a user whose active flag is false, \<open>authenticate\<close> fails with an
  authentication error (401 or 403) for every credential, the right one included; it
  returns no token.
\<close>

theorem deactivated_authenticate_fails:
  assumes "distinct (map email (users (svc_db svc)))"
    and "user \<in> set (users (svc_db svc))"
    and "is_active user = Some False"
  shows "\<exists>e. authenticate svc (email user) credential now = Inl e \<and> AuthError e"
  using assms
  by (simp add: authenticate_def login_user_def find_by_email py_truthy_bool_def AuthError_def)

theorem deactivated_authenticate_fails_witness:
  "\<exists>e. authenticate example_service ''bob@example.org'' ''builder'' 1000 = Inl e \<and> AuthError e"
proof -
  let ?u = "example_user 13 ''bob@example.org'' ''builder'' False"
  have h2: "distinct (map email (users (svc_db example_service)))"
    by (simp add: example_service_def example_user_def)
  have h3: "?u \<in> set (users (svc_db example_service))"
    by (simp add: example_service_def)
  have h5: "is_active ?u = Some False"
    by (simp add: example_user_def)
  from deactivated_authenticate_fails [OF h2 h3 h5, of "''builder''" 1000]
  show ?thesis by (simp add: example_user_def)
qed

lemma verify_setActive: "verify (setActive svc identityId active) token now = verify svc token now"
  by (simp add: verify_def setActive_def split: sum.splits)

lemma find_user_id_map:
  "find (\<lambda>u. user_id u = uid) (map (\<lambda>u. if user_id u = uid then u\<lparr>is_active := Some a\<rparr> else u) us)
   = map_option (\<lambda>u. u\<lparr>is_active := Some a\<rparr>) (find (\<lambda>u. user_id u = uid) us)"
  by (induction us) auto

lemma authenticate_Inr:
  assumes "authenticate svc contact_key credential issued = Inr t"
  shows "token_user t \<in> set (users (svc_db svc))
     \<and> access_token t = create_access_token (svc_sign svc) (svc_SECRET_KEY svc)
          \<lparr>sub_claim = Some (py_str (user_id (token_user t))),
           user_type_claim = Some (UserType_value (user_type (token_user t))),
           exp_claim = None\<rparr> (Some (ACCESS_TOKEN_EXPIRE_MINUTES * 60)) issued"
  using assms
  by (auto simp: authenticate_def login_user_def find_Some_iff split: option.splits if_splits)

text \<open>
  C9. \<open>verify\<close> reads the token, the key and the clock, never the store: whatever
  the store became, and so in a run in which \<open>setActive(identityId, false)\<close> was
  called, it returns what it returns in the run without that call, for every token and
  time. So a token that \<open>authenticate\<close> issued still verifies, up to its expiry,
  after its account was deactivated.
\<close>

theorem verify_ignores_deactivation:
  assumes "authenticate svc contact_key credential issued = Inr t"
    and "later \<le> issued + ACCESS_TOKEN_EXPIRE_MINUTES * 60"
  shows "(\<forall>db' token now. verify (svc\<lparr>svc_db := db'\<rparr>) token now = verify svc token now)
       \<and> (\<forall>identityId token now.
            verify (setActive svc identityId False) token now = verify svc token now)
       \<and> verify (setActive svc (user_id (token_user t)) False) (access_token t) later
           = Inr (user_id (token_user t))
       \<and> (case find (\<lambda>u. user_id u = user_id (token_user t))
                  (users (svc_db (setActive svc (user_id (token_user t)) False))) of
            None \<Rightarrow> False
          | Some u \<Rightarrow> is_active u = Some False)"
proof -
  note a = authenticate_Inr [OF assms(1)]
  have "verify svc (access_token t) later = Inr (user_id (token_user t))"
    using a assms(2) by (simp add: verify_def verify_created_token)
  moreover have "find (\<lambda>u. user_id u = user_id (token_user t)) (users (svc_db svc)) \<noteq> None"
    using a by (auto simp: find_None_iff)
  then have "case find (\<lambda>u. user_id u = user_id (token_user t))
                  (users (svc_db (setActive svc (user_id (token_user t)) False))) of
            None \<Rightarrow> False
          | Some u \<Rightarrow> is_active u = Some False"
    by (auto simp: setActive_def set_active_def find_user_id_map split: option.splits)
  moreover have "\<forall>db' token now. verify (svc\<lparr>svc_db := db'\<rparr>) token now = verify svc token now"
    by (simp add: verify_def)
  ultimately show ?thesis
    by (simp add: verify_setActive)
qed

theorem verify_ignores_deactivation_witness:
  "verify (setActive example_service 12 False)
      (access_token (projr (authenticate example_service ''ada@example.org'' ''lovelace'' 1000))) 2800
     = Inr 12
   \<and> verify example_service
      (access_token (projr (authenticate example_service ''ada@example.org'' ''lovelace'' 1000))) 2800
     = Inr 12
   \<and> is_active (hd (users (svc_db (setActive example_service 12 False)))) = Some False"
proof -
  let ?t = "projr (authenticate example_service ''ada@example.org'' ''lovelace'' 1000)"
  have h1: "authenticate example_service ''ada@example.org'' ''lovelace'' 1000 = Inr ?t"
    by (simp add: authenticate_def login_user_def example_service_def example_user_def
        toy_pwd_context_def hash_password_def verify_password_def py_truthy_bool_def
        empty_store_def)
  have h2: "(2800::nat) \<le> 1000 + ACCESS_TOKEN_EXPIRE_MINUTES * 60"
    by (simp add: ACCESS_TOKEN_EXPIRE_MINUTES_def)
  have u: "user_id (token_user ?t) = 12"
    by (simp add: authenticate_def login_user_def example_service_def example_user_def
        toy_pwd_context_def hash_password_def verify_password_def py_truthy_bool_def
        empty_store_def)
  have a: "is_active (hd (users (svc_db (setActive example_service 12 False)))) = Some False"
    by (simp add: setActive_def set_active_def example_service_def example_user_def
        empty_store_def)
  note r = verify_ignores_deactivation [OF h1 h2]
  from r have e: "verify (setActive example_service 12 False) (access_token ?t) 2800
      = verify example_service (access_token ?t) 2800"
    by blast
  from r have "verify (setActive example_service (user_id (token_user ?t)) False)
      (access_token ?t) 2800 = Inr (user_id (token_user ?t))"
    by blast
  then have v: "verify (setActive example_service 12 False) (access_token ?t) 2800 = Inr 12"
    by (simp only: u)
  from v e have "verify example_service (access_token ?t) 2800 = Inr 12"
    by simp
  with v a show ?thesis by blast
qed

section \<open>Creating tests and generating reports\<close>

text \<open>
  C8. Every test created with scan type X has, right after its creation, the scan type
  X, the status \<open>SCAN_TO_BE_TAKEN\<close>, no report id and no image id: so for every
  request in every store, and so for the test the doctor's form (\<open>handleCreateTest\<close>)
  creates, which is sent with the status \<open>SCAN_TO_BE_TAKEN\<close>.
\<close>

theorem created_test_to_be_taken:
  "(\<exists>db' t. create_test db testData now = Inr (db', t)
       \<and> tests db' (test_id t) = Some t
       \<and> test_type t = new_test_type testData
       \<and> status t = SCAN_TO_BE_TAKEN \<and> report_id t = None \<and> image_id t = None)
   \<and> (\<exists>t. tests (snd (handleCreateTest
                       \<lparr>createTest = server_createTest now, updateTest = upd,
                        generateReport = gen\<rparr> v db))
            (next_test_id db) = Some t
       \<and> test_id t = next_test_id db
       \<and> test_type t = fd_test_type (view_formData v)
       \<and> patient_id t = view_patient_id v
       \<and> status t = SCAN_TO_BE_TAKEN \<and> report_id t = None \<and> image_id t = None)"
  by (simp add: handleCreateTest_def server_createTest_def create_test_def Let_def)

theorem created_test_to_be_taken_witness:
  "(\<exists>db' t. create_test empty_store
               \<lparr>new_patient_id = 2, new_doctor_id = 3, new_test_type = CT_SCAN,
                new_radiologist_id = None, new_status = Some SCAN_TO_BE_TAKEN\<rparr> 50 = Inr (db', t)
       \<and> tests db' 1 = Some t
       \<and> test_type t = CT_SCAN
       \<and> status t = SCAN_TO_BE_TAKEN \<and> report_id t = None \<and> image_id t = None)
   \<and> (\<exists>t. tests (snd (handleCreateTest
                      \<lparr>createTest = server_createTest 50,
                       updateTest = (\<lambda>testId updateData db. (Inr (), db)),
                       generateReport = (\<lambda>testId reportData db. (Inr (), db))\<rparr>
                      example_view empty_store)) 1 = Some t
       \<and> test_type t = MRI_SCAN
       \<and> status t = SCAN_TO_BE_TAKEN \<and> report_id t = None \<and> image_id t = None)"
  using created_test_to_be_taken
    [where now = 50 and v = example_view and db = empty_store
       and upd = "\<lambda>testId updateData db. (Inr (), db)"
       and gen = "\<lambda>testId reportData db. (Inr (), db)"
       and testData = "\<lparr>new_patient_id = 2, new_doctor_id = 3, new_test_type = CT_SCAN,
                         new_radiologist_id = None, new_status = Some SCAN_TO_BE_TAKEN\<rparr>"]
  by (auto simp: example_view_def empty_store_def create_test_def Let_def)

text \<open>
  C4. On a test that has an image id, two calls of report generation both succeed; the
  test carries the same report id after the first and after the second call; the first
  call leaves at most one new report and the second none, so one report record serves
  both calls, and it holds the texts of the second call.
\<close>

theorem generate_report_twice_one_report:
  assumes "tests db testId = Some t"
    and "image_id t = Some img"
  shows "\<exists>db1 t1 db2 t2 rid r.
           generate_report db testId first_data now1 = Inr (db1, t1)
         \<and> generate_report db1 testId second_data now2 = Inr (db2, t2)
         \<and> report_id t1 = Some rid \<and> report_id t2 = Some rid
         \<and> map_option report_id (tests db1 testId) = Some (Some rid)
         \<and> map_option report_id (tests db2 testId) = Some (Some rid)
         \<and> dom (reports db1) = insert rid (dom (reports db))
         \<and> dom (reports db2) = dom (reports db1)
         \<and> next_report_id db2 = next_report_id db1
         \<and> reports db2 rid = Some r
         \<and> findings r = rd_findings second_data \<and> diagnosis r = rd_diagnosis second_data"
proof (cases "case report_id t of None \<Rightarrow> None | Some rid \<Rightarrow> reports db rid")
  case None
  then show ?thesis
    using assms
    by (auto simp: generate_report_def Let_def split: option.splits)
next
  case (Some r0)
  then show ?thesis
    using assms
    by (auto simp: generate_report_def Let_def split: option.splits)
qed

text \<open>The report a call leaves under the test's report id has the selected status.\<close>

lemma generate_report_status:
  assumes "generate_report db testId reportData now = Inr (db', t')"
  shows "\<exists>rid r. report_id t' = Some rid \<and> reports db' rid = Some r
           \<and> rep_status r
               = report_status_selection (rd_findings reportData) (rd_diagnosis reportData)"
  using assms
  by (auto simp: generate_report_def Let_def split: option.splits)

theorem generate_report_twice_one_report_witness:
  "tests imaged_store 5 = Some (example_test SCAN_IN_PROGRESS (Some 9))
   \<and> reports imaged_store = Map.empty
   \<and> (\<exists>db1 t1 db2 t2 r.
           generate_report imaged_store 5
             \<lparr>rd_findings = Some ''no fracture'', rd_diagnosis = None\<rparr> 200 = Inr (db1, t1)
         \<and> generate_report db1 5
             \<lparr>rd_findings = Some ''no fracture'', rd_diagnosis = Some ''normal''\<rparr> 300 = Inr (db2, t2)
         \<and> report_id t1 = Some 1 \<and> report_id t2 = Some 1
         \<and> dom (reports db2) = {1}
         \<and> reports db2 1 = Some r
         \<and> diagnosis r = Some ''normal'')"
proof -
  have h1: "tests imaged_store 5 = Some (example_test SCAN_IN_PROGRESS (Some 9))"
    by (simp add: imaged_store_def empty_store_def)
  have h2: "image_id (example_test SCAN_IN_PROGRESS (Some 9)) = Some 9"
    by (simp add: example_test_def)
  have h3: "reports imaged_store = Map.empty"
    by (simp add: imaged_store_def empty_store_def)
  have first: "report_id (snd (projr (generate_report imaged_store 5
        \<lparr>rd_findings = Some ''no fracture'', rd_diagnosis = None\<rparr> 200))) = Some 1"
    by (simp add: generate_report_def imaged_store_def empty_store_def example_test_def Let_def)
  from generate_report_twice_one_report [OF h1 h2,
      of "\<lparr>rd_findings = Some ''no fracture'', rd_diagnosis = None\<rparr>" 200
         "\<lparr>rd_findings = Some ''no fracture'', rd_diagnosis = Some ''normal''\<rparr>" 300]
  obtain db1 t1 db2 t2 rid r where
    g: "generate_report imaged_store 5
          \<lparr>rd_findings = Some ''no fracture'', rd_diagnosis = None\<rparr> 200 = Inr (db1, t1)"
       "generate_report db1 5
          \<lparr>rd_findings = Some ''no fracture'', rd_diagnosis = Some ''normal''\<rparr> 300 = Inr (db2, t2)"
       "report_id t1 = Some rid" "report_id t2 = Some rid"
       "dom (reports db1) = insert rid (dom (reports imaged_store))"
       "dom (reports db2) = dom (reports db1)"
       "reports db2 rid = Some r"
       "diagnosis r = Some ''normal''"
    by auto
  from first g(1) g(3) have "rid = 1" by simp
  with g h3 have "generate_report imaged_store 5
          \<lparr>rd_findings = Some ''no fracture'', rd_diagnosis = None\<rparr> 200 = Inr (db1, t1)
      \<and> generate_report db1 5
          \<lparr>rd_findings = Some ''no fracture'', rd_diagnosis = Some ''normal''\<rparr> 300 = Inr (db2, t2)
      \<and> report_id t1 = Some 1 \<and> report_id t2 = Some 1
      \<and> dom (reports db2) = {1}
      \<and> reports db2 1 = Some r
      \<and> diagnosis r = Some ''normal''"
    by simp
  then show ?thesis
    using h1 h3 by blast
qed

section \<open>Billing\<close>

text \<open>
  C5. \<open>createBill\<close> succeeds for every patient id, appointment id, procedure text and
  cost, in every store, so also when no appointment has the given id (no table but
  \<open>billing_details\<close> is read or written), and the bill it returns is what a lookup by
  the bill's own id returns afterwards.
\<close>

theorem create_billing_orphan_appointment:
  "\<exists>db' bill.
      create_billing db billingData now = Inr (db', bill)
    \<and> get_billing db' (billing_id bill) = Inr bill
    \<and> bill_appointment_id bill = c_appointment_id billingData
    \<and> bill_patient_id bill = c_patient_id billingData
    \<and> procedure bill = c_procedure billingData
    \<and> base_cost bill = c_base_cost billingData
    \<and> appointments db' = appointments db"
  by (simp add: create_billing_def get_billing_def Let_def)

theorem create_billing_orphan_appointment_witness:
  "appointments empty_store 77 = None
   \<and> (\<exists>db' bill.
         create_billing empty_store example_billingData 5 = Inr (db', bill)
       \<and> get_billing db' (billing_id bill) = Inr bill
       \<and> bill_appointment_id bill = Some 77
       \<and> base_cost bill = 150)"
  using create_billing_orphan_appointment [of empty_store example_billingData 5]
  by (auto simp: example_billingData_def empty_store_def)

lemma billing_step_keeps_cost:
  assumes "case billings db billingId of None \<Rightarrow> True | Some b \<Rightarrow> base_cost b = cost"
    and "billingId < next_billing_id db"
  shows "(case billings (billing_step now db request) billingId of
            None \<Rightarrow> True | Some b \<Rightarrow> base_cost b = cost)
       \<and> billingId < next_billing_id (billing_step now db request)"
  using assms
  by (cases request)
     (auto simp: create_billing_def update_status_def mark_as_paid_def delete_billing_def
        Let_def split: option.splits)

lemma billing_run_keeps_cost:
  assumes "case billings db billingId of None \<Rightarrow> True | Some b \<Rightarrow> base_cost b = cost"
    and "billingId < next_billing_id db"
  shows "case billings (billing_run now db requests) billingId of
            None \<Rightarrow> True | Some b \<Rightarrow> base_cost b = cost"
  using assms
proof (induction requests arbitrary: db now)
  case Nil
  then show ?case by simp
next
  case (Cons request rest)
  from billing_step_keeps_cost [OF Cons.prems, of now request]
  show ?case by (simp add: Cons.IH)
qed

text \<open>
  C6. For every bill whose status is paid, every subsequent operation leaves its cost
  unchanged: after every run of the requests that change bills (creating bills, status
  updates, marking as paid, deleting) the bill, for as long as it exists, has the cost
  it had; a status update on the paid bill succeeds, sets the status it names and keeps
  the cost, and so does marking it as paid again.
\<close>

theorem paid_cost_kept_by_status_requests:
  assumes "billings db billingId = Some bill"
    and "bill_status bill = PAID"
    and "billingId < next_billing_id db"
  shows "(case billings (billing_run now db requests) billingId of
            None \<Rightarrow> True | Some b \<Rightarrow> base_cost b = base_cost bill)
       \<and> (\<exists>db' b. update_status db billingId newStatus now = Inr (db', b)
              \<and> billings db' billingId = Some b
              \<and> bill_status b = newStatus \<and> base_cost b = base_cost bill)
       \<and> (\<exists>db' b. mark_as_paid db billingId now = Inr (db', b)
              \<and> billings db' billingId = Some b
              \<and> bill_status b = PAID \<and> base_cost b = base_cost bill)"
  using assms billing_run_keeps_cost
      [where db = db and billingId = billingId and cost = "base_cost bill" and now = now
         and requests = requests]
  by (simp add: update_status_def mark_as_paid_def Let_def)

theorem paid_cost_kept_by_status_requests_witness:
  "map_option base_cost
     (billings (billing_run 30 paid_store
        [handleStatusUpdate 1 OVERDUE, createBilling example_billingData, markAsPaid 1]) 1)
     = Some 150
   \<and> map_option bill_status
     (billings (billing_run 30 paid_store
        [handleStatusUpdate 1 OVERDUE, createBilling example_billingData, markAsPaid 1]) 1)
     = Some PAID
   \<and> map_option bill_status
     (billings (billing_run 30 paid_store [handleStatusUpdate 1 OVERDUE]) 1) = Some OVERDUE"
proof -
  have h1: "billings paid_store 1 = Some paid_bill"
    by (simp add: paid_store_def)
  have h2: "bill_status paid_bill = PAID"
    by (simp add: paid_bill_def)
  have h3: "1 < next_billing_id paid_store"
    by (simp add: paid_store_def)
  have e: "billings (billing_run 30 paid_store
        [handleStatusUpdate 1 OVERDUE, createBilling example_billingData, markAsPaid 1]) 1 \<noteq> None"
    by (simp add: paid_store_def empty_store_def update_status_def create_billing_def
        mark_as_paid_def Let_def)
  have s: "map_option bill_status
     (billings (billing_run 30 paid_store
        [handleStatusUpdate 1 OVERDUE, createBilling example_billingData, markAsPaid 1]) 1)
     = Some PAID"
    by (simp add: paid_store_def empty_store_def update_status_def create_billing_def
        mark_as_paid_def Let_def)
  have o: "map_option bill_status
     (billings (billing_run 30 paid_store [handleStatusUpdate 1 OVERDUE]) 1) = Some OVERDUE"
    by (simp add: paid_store_def empty_store_def update_status_def Let_def)
  from paid_cost_kept_by_status_requests [OF h1 h2 h3, of 30
      "[handleStatusUpdate 1 OVERDUE, createBilling example_billingData, markAsPaid 1]"]
  have "case billings (billing_run 30 paid_store
        [handleStatusUpdate 1 OVERDUE, createBilling example_billingData, markAsPaid 1]) 1 of
          None \<Rightarrow> True | Some b \<Rightarrow> base_cost b = base_cost paid_bill"
    by blast
  with e have "map_option base_cost
     (billings (billing_run 30 paid_store
        [handleStatusUpdate 1 OVERDUE, createBilling example_billingData, markAsPaid 1]) 1)
     = Some 150"
    by (auto simp: paid_bill_def split: option.splits)
  with s o show ?thesis by blast
qed

end
